theory Spec2Isabelle
  imports Complex_Main
begin

section \<open>The relational GCN regressor of \<^verbatim>\<open>relational_gcn_regressor.py\<close>\<close>

text \<open>
  The module \<^verbatim>\<open>RelationalGCNRegressor\<close> builds two sub-modules in its constructor and
  calls them one after the other in \<^verbatim>\<open>forward\<close>. Both sub-module classes,
  \<^verbatim>\<open>MultiGraphConvolutionLayers\<close> and \<^verbatim>\<open>GraphAggregationLayer\<close>, are imported from
  another file; here they are parameters of the model. A call of either one may raise, may
  change state outside the regressor (random number generator, training mode), and is
  recorded in a log of the calls made, so that what the regressor asks of its
  collaborators can be stated.
\<close>

subsection \<open>Python values\<close>

text \<open>
  Exceptions: \<^verbatim>\<open>IndexError\<close> is the one exception the regressor's own code can raise
  (\<^verbatim>\<open>conv_units[-1]\<close>); everything else a collaborator raises is \<open>Other\<close>.
  A collaborator may raise \<open>IndexError\<close> as well.
\<close>

datatype 'x exn = IndexError | Other 'x

text \<open>
  \<^verbatim>\<open>xs[i]\<close> on a Python list: a negative index counts from the end, an index out of
  range raises \<^verbatim>\<open>IndexError\<close>.
\<close>

definition getitem :: "'a list \<Rightarrow> int \<Rightarrow> 'x exn + 'a" where
  "getitem xs i =
     (if i < 0
      then (if - i \<le> int (length xs)
            then Inr (xs ! (length xs - nat (- i)))
            else Inl IndexError)
      else (if i < int (length xs)
            then Inr (xs ! nat i)
            else Inl IndexError))"

text \<open>
  \<^verbatim>\<open>torch.nn.LeakyReLU(negative_slope)\<close>: the activation object handed to the
  convolution stack. Python floats are only passed on by this module, never computed
  with, so their type is the parameter \<open>'f\<close>.
\<close>

datatype 'f activation = LeakyReLU (negative_slope: 'f)

subsection \<open>The collaborators\<close>

text \<open>
  The arguments of \<^verbatim>\<open>MultiGraphConvolutionLayers(...)\<close> as written at lines 52-60:
  three positional arguments, then four keyword arguments.
\<close>

record 'f conv_args =
  conv_pos1 :: int
  conv_pos2 :: "int list"
  conv_pos3 :: "'f activation"
  edge_type_num :: int
  dropout_rate :: 'f
  with_features :: bool
  feature_dim_size :: int

text \<open>
  The arguments of \<^verbatim>\<open>GraphAggregationLayer(...)\<close> as written at lines 64-68:
  two positional arguments (input size, output size), then one keyword argument.
\<close>

record 'f agg_args =
  agg_pos1 :: int
  agg_pos2 :: int
  leaky_relu_slope :: 'f

text \<open>
  The two imported classes, as parameters: their constructors and their call
  (\<^verbatim>\<open>forward\<close>) operations. \<open>'gc\<close> and \<open>'ga\<close> are the objects they build, \<open>'t\<close> is
  \<^verbatim>\<open>torch.Tensor\<close>, \<open>'w\<close> is the state outside the regressor that a call may read and
  change. Lists are values here: a constructor is taken not to mutate the
  \<^verbatim>\<open>conv_units\<close> list it is given.
\<close>

record ('f, 't, 'gc, 'ga, 'x, 'w) collaborators =
  MultiGraphConvolutionLayers :: "'f conv_args \<Rightarrow> 'w \<Rightarrow> ('x exn + 'gc) \<times> 'w"
  GraphAggregationLayer :: "'f agg_args \<Rightarrow> 'w \<Rightarrow> ('x exn + 'ga) \<times> 'w"
  graph_conv_call :: "'gc \<Rightarrow> 't \<Rightarrow> 't \<Rightarrow> 't option \<Rightarrow> 'w \<Rightarrow> ('x exn + 't) \<times> 'w"
  aggregation_call :: "'ga \<Rightarrow> 't \<Rightarrow> 'w \<Rightarrow> ('x exn + 't) \<times> 'w"

text \<open>The log of calls the regressor makes to its collaborators, in order.\<close>

datatype ('f, 't) call =
    Conv_init "'f conv_args"
  | Agg_init "'f agg_args"
  | Conv_forward 't 't "'t option"
  | Agg_forward 't

text \<open>The constructor calls in a log, by class, with their arguments.\<close>

fun conv_inits :: "('f, 't) call list \<Rightarrow> 'f conv_args list" where
  "conv_inits [] = []"
| "conv_inits (Conv_init a # cs) = a # conv_inits cs"
| "conv_inits (c # cs) = conv_inits cs"

fun agg_inits :: "('f, 't) call list \<Rightarrow> 'f agg_args list" where
  "agg_inits [] = []"
| "agg_inits (Agg_init a # cs) = a # agg_inits cs"
| "agg_inits (c # cs) = agg_inits cs"

text \<open>The forward calls in a log, by collaborator.\<close>

fun conv_forwards :: "('f, 't) call list \<Rightarrow> ('t \<times> 't \<times> 't option) list" where
  "conv_forwards [] = []"
| "conv_forwards (Conv_forward x a h # cs) = (x, a, h) # conv_forwards cs"
| "conv_forwards (c # cs) = conv_forwards cs"

fun agg_forwards :: "('f, 't) call list \<Rightarrow> 't list" where
  "agg_forwards [] = []"
| "agg_forwards (Agg_forward x # cs) = x # agg_forwards cs"
| "agg_forwards (c # cs) = agg_forwards cs"

subsection \<open>Running Python statements\<close>

text \<open>
  An action runs from a state \<open>'w\<close> and gives a value or a raised exception, the new
  state, and the calls it made.
\<close>

record ('a, 'w, 'c, 'x) outcome =
  result :: "'x exn + 'a"
  world :: 'w
  calls :: "'c list"

type_synonym ('a, 'w, 'c, 'x) action = "'w \<Rightarrow> ('a, 'w, 'c, 'x) outcome"

definition returns :: "'a \<Rightarrow> ('a, 'w, 'c, 'x) action" where
  "returns v w = \<lparr>result = Inr v, world = w, calls = []\<rparr>"

text \<open>Evaluating an expression that may raise but touches no state.\<close>

definition eval_expr :: "'x exn + 'a \<Rightarrow> ('a, 'w, 'c, 'x) action" where
  "eval_expr r w = \<lparr>result = r, world = w, calls = []\<rparr>"

text \<open>Calling a collaborator: its outcome, with the call logged.\<close>

definition call_collaborator ::
  "'c \<Rightarrow> ('w \<Rightarrow> ('x exn + 'a) \<times> 'w) \<Rightarrow> ('a, 'w, 'c, 'x) action" where
  "call_collaborator c f w =
     (case f w of (r, w') \<Rightarrow> \<lparr>result = r, world = w', calls = [c]\<rparr>)"

text \<open>
  Sequencing: an exception raised by the first statement ends the run (there is no
  \<^verbatim>\<open>try\<close> in the file); otherwise the rest runs with the value from the new state.
\<close>

definition and_then ::
  "('a, 'w, 'c, 'x) action \<Rightarrow> ('a \<Rightarrow> ('b, 'w, 'c, 'x) action) \<Rightarrow> ('b, 'w, 'c, 'x) action" where
  "and_then m k w =
     (let o1 = m w in
      case result o1 of
        Inl e \<Rightarrow> \<lparr>result = Inl e, world = world o1, calls = calls o1\<rparr>
      | Inr v \<Rightarrow>
          (let o2 = k v (world o1) in
           \<lparr>result = result o2, world = world o2, calls = calls o1 @ calls o2\<rparr>))"

subsection \<open>The regressor\<close>

text \<open>The attributes \<^verbatim>\<open>self.graph_conv\<close> and \<^verbatim>\<open>self.aggregation_layer\<close>.\<close>

record ('gc, 'ga) regressor =
  graph_conv :: 'gc
  aggregation_layer :: 'ga

text \<open>
  \<^verbatim>\<open>RelationalGCNRegressor.__init__\<close>, lines 22-68. The convolution stack is built first;
  \<^verbatim>\<open>conv_units[-1]\<close> is evaluated after it, as an argument of the aggregation layer's
  constructor.
\<close>

definition init ::
  "('f, 't, 'gc, 'ga, 'x, 'w) collaborators \<Rightarrow>
   int \<Rightarrow> int list \<Rightarrow> int \<Rightarrow> 'f \<Rightarrow> 'f \<Rightarrow> bool \<Rightarrow> int \<Rightarrow>
   (('gc, 'ga) regressor, 'w, ('f, 't) call, 'x) action" where
  "init env in_features conv_units aggregation_units dropout_rate' leaky_relu_slope'
        with_features' feature_dim_size' =
     (let conv_args =
            \<lparr>conv_pos1 = in_features,
             conv_pos2 = conv_units,
             conv_pos3 = LeakyReLU leaky_relu_slope',
             edge_type_num = 2,
             dropout_rate = dropout_rate',
             with_features = with_features',
             feature_dim_size = feature_dim_size'\<rparr>
      in and_then
           (call_collaborator (Conv_init conv_args)
              (MultiGraphConvolutionLayers env conv_args))
           (\<lambda>gc.
              and_then (eval_expr (getitem conv_units (- 1)))
                (\<lambda>last_units.
                   let agg_args =
                         \<lparr>agg_pos1 = last_units,
                          agg_pos2 = aggregation_units,
                          leaky_relu_slope = leaky_relu_slope'\<rparr>
                   in and_then
                        (call_collaborator (Agg_init agg_args)
                           (GraphAggregationLayer env agg_args))
                        (\<lambda>ga. returns \<lparr>graph_conv = gc, aggregation_layer = ga\<rparr>))))"

text \<open>\<^verbatim>\<open>RelationalGCNRegressor.forward\<close>, lines 70-93.\<close>

definition forward ::
  "('f, 't, 'gc, 'ga, 'x, 'w) collaborators \<Rightarrow> ('gc, 'ga) regressor \<Rightarrow>
   't \<Rightarrow> 't \<Rightarrow> 't option \<Rightarrow> ('t, 'w, ('f, 't) call, 'x) action" where
  "forward env self node_features adj_matrices h_tensor =
     and_then
       (call_collaborator (Conv_forward node_features adj_matrices h_tensor)
          (graph_conv_call env (graph_conv self) node_features adj_matrices h_tensor))
       (\<lambda>hidden_features.
          and_then
            (call_collaborator (Agg_forward hidden_features)
               (aggregation_call env (aggregation_layer self) hidden_features))
            (\<lambda>output. returns output))"

subsection \<open>The specification's side\<close>

text \<open>
  The spec's description of \<^verbatim>\<open>forward\<close>: "call the convolution stack then the
  aggregation layer, returning its result", that is, the Python expression
  \<^verbatim>\<open>aggregation_layer(graph_conv(node_features, adj_matrices, h_tensor))\<close>. The inner call
  is evaluated first; if it raises, the outer call is not made.
\<close>

definition aggregation_of_graph_conv ::
  "('f, 't, 'gc, 'ga, 'x, 'w) collaborators \<Rightarrow> ('gc, 'ga) regressor \<Rightarrow>
   't \<Rightarrow> 't \<Rightarrow> 't option \<Rightarrow> 'w \<Rightarrow> ('x exn + 't) \<times> 'w" where
  "aggregation_of_graph_conv env self x a h w =
     (case graph_conv_call env (graph_conv self) x a h w of
        (Inl e, w1) \<Rightarrow> (Inl e, w1)
      | (Inr hidden, w1) \<Rightarrow> aggregation_call env (aggregation_layer self) hidden w1)"

text \<open>
  Modelled from the spec: the constructor of \<^verbatim>\<open>GraphAggregationLayer\<close>, a class the regressor
  imports and whose code is not part of the file. The spec says the component is
  "configured with input size, output size, and activation slope": the object built
  remembers the sizes and the slope it was declared with.
\<close>

definition GraphAggregationLayer_spec :: "'f agg_args \<Rightarrow> 'w \<Rightarrow> ('x exn + 'f agg_args) \<times> 'w" where
  "GraphAggregationLayer_spec args w = (Inr args, w)"

text \<open>
  Modelled from the spec: the call of a \<^verbatim>\<open>GraphAggregationLayer\<close> object, not part of the
  file either. The spec says the output of \<^verbatim>\<open>forward\<close> "matches the aggregation layer's
  declared output dimensionality". Tensors are abstracted to their dimensionality, an
  integer: a call returns a tensor of the declared output size (the second positional
  argument of the constructor).
\<close>

definition aggregation_call_spec :: "'f agg_args \<Rightarrow> int \<Rightarrow> 'w \<Rightarrow> ('x exn + int) \<times> 'w" where
  "aggregation_call_spec layer hidden w = (Inr (agg_pos2 layer), w)"

text \<open>
  Modelled from the spec: the collaborators with the aggregation layer as the spec
  describes it, at the level of dimensionalities. The convolution stack, about whose
  output the spec says nothing, stays a parameter.
\<close>

definition with_spec_aggregation ::
  "('f conv_args \<Rightarrow> 'w \<Rightarrow> ('x exn + 'gc) \<times> 'w) \<Rightarrow>
   ('gc \<Rightarrow> int \<Rightarrow> int \<Rightarrow> int option \<Rightarrow> 'w \<Rightarrow> ('x exn + int) \<times> 'w) \<Rightarrow>
   ('f, int, 'gc, 'f agg_args, 'x, 'w) collaborators" where
  "with_spec_aggregation conv_init conv_call =
     \<lparr>MultiGraphConvolutionLayers = conv_init,
      GraphAggregationLayer = GraphAggregationLayer_spec,
      graph_conv_call = conv_call,
      aggregation_call = aggregation_call_spec\<rparr>"

subsection \<open>A small instance of the collaborators\<close>

text \<open>
  Stand-ins for the two classes, used to run the model on concrete inputs. Objects
  remember their constructor arguments, tensors are lists of integers, the state counts
  the calls made. The convolution stand-in cannot be built with an input size that is
  not positive; called, it raises on an empty node-feature tensor and otherwise returns
  its input. The aggregation stand-in sums.
\<close>

definition toy :: "(real, int list, real conv_args, real agg_args, string, nat) collaborators" where
  "toy =
     \<lparr>MultiGraphConvolutionLayers =
        (\<lambda>args w. if conv_pos1 args \<le> 0 then (Inl (Other ''in_features''), w)
                  else (Inr args, Suc w)),
      GraphAggregationLayer = (\<lambda>args w. (Inr args, Suc w)),
      graph_conv_call =
        (\<lambda>gc x a h w. if x = [] then (Inl (Other ''empty''), w) else (Inr x, Suc w)),
      aggregation_call = (\<lambda>ga hidden w. (Inr [sum_list hidden], Suc w))\<rparr>"

text \<open>
  The regressor that \<^verbatim>\<open>RelationalGCNRegressor(8, [64, 32], 16)\<close> builds from the stand-ins
  (dropout rate 0, slope 0.1, no additional features).
\<close>

definition toy_regressor :: "(real conv_args, real agg_args) regressor" where
  "toy_regressor =
     \<lparr>graph_conv =
        \<lparr>conv_pos1 = 8, conv_pos2 = [64, 32], conv_pos3 = LeakyReLU (1 / 10),
         edge_type_num = 2, dropout_rate = 0, with_features = False,
         feature_dim_size = 0\<rparr>,
      aggregation_layer = \<lparr>agg_pos1 = 32, agg_pos2 = 16, leaky_relu_slope = 1 / 10\<rparr>\<rparr>"

text \<open>
  An instance at the level of dimensionalities: the convolution stand-in returns node
  embeddings whose size is the last of its layer sizes; the aggregation layer is the
  spec's.
\<close>

definition toy_dims :: "(real, int, real conv_args, real agg_args, string, nat) collaborators" where
  "toy_dims =
     with_spec_aggregation
       (\<lambda>args w. (Inr args, Suc w))
       (\<lambda>gc x a h w. (Inr (last (conv_pos2 gc)), Suc w))"

section \<open>Properties\<close>

subsection \<open>What a run of the constructor and of \<^verbatim>\<open>forward\<close> amounts to\<close>

text \<open>\<^verbatim>\<open>xs[-1]\<close> is the last element, and raises on the empty list.\<close>

lemma getitem_last:
  "getitem xs (- 1) = (if xs = [] then Inl IndexError else Inr (last xs))"
  by (cases xs rule: rev_cases) (simp_all add: getitem_def)

text \<open>The runs of \<^verbatim>\<open>forward\<close>, by what the collaborators do.\<close>

lemma forward_run:
  "forward env self x a h w =
     (case graph_conv_call env (graph_conv self) x a h w of
        (Inl e, w1) \<Rightarrow> \<lparr>result = Inl e, world = w1, calls = [Conv_forward x a h]\<rparr>
      | (Inr hid, w1) \<Rightarrow>
          (case aggregation_call env (aggregation_layer self) hid w1 of
             (r, w2) \<Rightarrow>
               \<lparr>result = r, world = w2, calls = [Conv_forward x a h, Agg_forward hid]\<rparr>))"
  by (simp add: forward_def and_then_def call_collaborator_def returns_def Let_def
      split: prod.splits sum.splits)

text \<open>The runs of the constructor, by what the collaborators' constructors do.\<close>

lemma init_run:
  "init env n_in cu au dr sl wfeat fdim w =
     (let cargs = \<lparr>conv_pos1 = n_in, conv_pos2 = cu, conv_pos3 = LeakyReLU sl,
                   edge_type_num = 2, dropout_rate = dr, with_features = wfeat,
                   feature_dim_size = fdim\<rparr>;
          aargs = \<lparr>agg_pos1 = last cu, agg_pos2 = au, leaky_relu_slope = sl\<rparr>
      in case MultiGraphConvolutionLayers env cargs w of
           (Inl e, w1) \<Rightarrow> \<lparr>result = Inl e, world = w1, calls = [Conv_init cargs]\<rparr>
         | (Inr gc, w1) \<Rightarrow>
             if cu = [] then \<lparr>result = Inl IndexError, world = w1, calls = [Conv_init cargs]\<rparr>
             else (case GraphAggregationLayer env aargs w1 of
                     (Inl e, w2) \<Rightarrow>
                       \<lparr>result = Inl e, world = w2, calls = [Conv_init cargs, Agg_init aargs]\<rparr>
                   | (Inr ga, w2) \<Rightarrow>
                       \<lparr>result = Inr \<lparr>graph_conv = gc, aggregation_layer = ga\<rparr>, world = w2,
                        calls = [Conv_init cargs, Agg_init aargs]\<rparr>))"
  by (simp add: init_def and_then_def call_collaborator_def returns_def eval_expr_def
      getitem_last Let_def split: prod.splits sum.splits)

text \<open>Runs with the stand-in collaborators.\<close>

lemma toy_init_run:
  "init toy 8 [64, 32] 16 0 (1 / 10) False 0 0 =
     \<lparr>result = Inr toy_regressor,
      world = 2,
      calls = [Conv_init \<lparr>conv_pos1 = 8, conv_pos2 = [64, 32], conv_pos3 = LeakyReLU (1 / 10),
                          edge_type_num = 2, dropout_rate = 0, with_features = False,
                          feature_dim_size = 0\<rparr>,
               Agg_init \<lparr>agg_pos1 = 32, agg_pos2 = 16, leaky_relu_slope = 1 / 10\<rparr>]\<rparr>"
  by (simp add: init_run toy_def toy_regressor_def Let_def)

lemma toy_init_empty:
  "init toy 8 [] 16 0 (1 / 10) False 0 0 =
     \<lparr>result = Inl IndexError, world = 1,
      calls = [Conv_init \<lparr>conv_pos1 = 8, conv_pos2 = [], conv_pos3 = LeakyReLU (1 / 10),
                          edge_type_num = 2, dropout_rate = 0, with_features = False,
                          feature_dim_size = 0\<rparr>]\<rparr>"
  by (simp add: init_run toy_def Let_def)

lemma toy_forward_run:
  "forward toy toy_regressor [1, 2, 3] [0] None 5 =
     \<lparr>result = Inr [6], world = 7,
      calls = [Conv_forward [1, 2, 3] [0] None, Agg_forward [1, 2, 3]]\<rparr>"
  by (simp add: forward_run toy_def)

lemma toy_forward_raises:
  "forward toy toy_regressor [] [0] None 5 =
     \<lparr>result = Inl (Other ''empty''), world = 5, calls = [Conv_forward [] [0] None]\<rparr>"
  by (simp add: forward_run toy_def)

subsection \<open>The claims\<close>

text \<open>
  Claim C1. For every input, whatever the collaborators do, \<^verbatim>\<open>forward\<close> gives the value (or
  the exception) and the final state of the aggregation layer applied to the result of the
  convolution stack on the same arguments, and the collaborator calls it makes are
  exactly these two (only the first when the convolution stack raises).
\<close>

theorem forward_is_aggregation_of_graph_conv:
  "(result (forward env self x a h w), world (forward env self x a h w)) =
     aggregation_of_graph_conv env self x a h w
   \<and> calls (forward env self x a h w) =
       (case fst (graph_conv_call env (graph_conv self) x a h w) of
          Inl e \<Rightarrow> [Conv_forward x a h]
        | Inr hidden \<Rightarrow> [Conv_forward x a h, Agg_forward hidden])"
  by (simp add: forward_run aggregation_of_graph_conv_def split: prod.splits sum.splits)

text \<open>
  Claim C2. With a non-empty \<^verbatim>\<open>conv_units\<close>, every construction of the aggregation layer
  is with input size the last element of \<^verbatim>\<open>conv_units\<close> and output size
  \<^verbatim>\<open>aggregation_units\<close>; when the constructor of the regressor returns, exactly one such
  construction was made, and \<^verbatim>\<open>self.aggregation_layer\<close> is the object it returned.
\<close>

theorem aggregation_layer_sized_by_last_conv_unit:
  assumes "cu \<noteq> []"
  shows "set (agg_inits (calls (init env n_in cu au dr sl wfeat fdim w)))
           \<subseteq> {\<lparr>agg_pos1 = last cu, agg_pos2 = au, leaky_relu_slope = sl\<rparr>}
         \<and> (result (init env n_in cu au dr sl wfeat fdim w) = Inr self \<longrightarrow>
              agg_inits (calls (init env n_in cu au dr sl wfeat fdim w))
                = [\<lparr>agg_pos1 = last cu, agg_pos2 = au, leaky_relu_slope = sl\<rparr>]
              \<and> (\<exists>w1. fst (GraphAggregationLayer env
                              \<lparr>agg_pos1 = last cu, agg_pos2 = au, leaky_relu_slope = sl\<rparr> w1)
                         = Inr (aggregation_layer self)))"
  using assms
  by (auto simp add: init_run Let_def split: prod.splits sum.splits) (metis fst_conv)

theorem aggregation_layer_sized_by_last_conv_unit_witness:
  "[64, 32] \<noteq> ([] :: int list)
   \<and> result (init toy 8 [64, 32] 16 0 (1 / 10) False 0 0)
       = Inr toy_regressor
   \<and> agg_inits (calls (init toy 8 [64, 32] 16 0 (1 / 10) False 0 0))
       = [\<lparr>agg_pos1 = 32, agg_pos2 = 16, leaky_relu_slope = 1 / 10\<rparr>]"
proof -
  have ne: "[64, 32] \<noteq> ([] :: int list)" by simp
  have run: "result (init toy 8 [64, 32] 16 0 (1 / 10) False 0 0)
       = Inr toy_regressor"
    by (simp add: toy_init_run)
  from aggregation_layer_sized_by_last_conv_unit [OF ne, of toy 8 16 0 "1 / 10" False 0 0] run
  show ?thesis by simp
qed

text \<open>
  Claim C3. Every run of the constructor calls \<^verbatim>\<open>MultiGraphConvolutionLayers\<close> exactly once,
  as its first collaborator call and from the state the constructor started in, with
  input size \<^verbatim>\<open>in_features\<close>, layer sizes \<^verbatim>\<open>conv_units\<close>, a LeakyReLU of slope
  \<^verbatim>\<open>leaky_relu_slope\<close>, edge-type count 2, and the dropout rate, feature flag and feature
  size it was given. If that call raises, the constructor raises the same exception,
  leaves the state the call left and calls nothing else. If the constructor returns,
  \<^verbatim>\<open>self.graph_conv\<close> is the object that call returned.
\<close>

theorem graph_conv_constructed_as_configured:
  "conv_inits (calls (init env n_in cu au dr sl wfeat fdim w))
     = [\<lparr>conv_pos1 = n_in, conv_pos2 = cu, conv_pos3 = LeakyReLU sl,
         edge_type_num = 2, dropout_rate = dr, with_features = wfeat,
         feature_dim_size = fdim\<rparr>]
   \<and> hd (calls (init env n_in cu au dr sl wfeat fdim w))
     = Conv_init \<lparr>conv_pos1 = n_in, conv_pos2 = cu, conv_pos3 = LeakyReLU sl,
         edge_type_num = 2, dropout_rate = dr, with_features = wfeat,
         feature_dim_size = fdim\<rparr>
   \<and> (fst (MultiGraphConvolutionLayers env
               \<lparr>conv_pos1 = n_in, conv_pos2 = cu, conv_pos3 = LeakyReLU sl,
                edge_type_num = 2, dropout_rate = dr, with_features = wfeat,
                feature_dim_size = fdim\<rparr> w) = Inl e \<longrightarrow>
        init env n_in cu au dr sl wfeat fdim w
          = \<lparr>result = Inl e,
             world = snd (MultiGraphConvolutionLayers env
                            \<lparr>conv_pos1 = n_in, conv_pos2 = cu, conv_pos3 = LeakyReLU sl,
                             edge_type_num = 2, dropout_rate = dr, with_features = wfeat,
                             feature_dim_size = fdim\<rparr> w),
             calls = [Conv_init \<lparr>conv_pos1 = n_in, conv_pos2 = cu, conv_pos3 = LeakyReLU sl,
                                 edge_type_num = 2, dropout_rate = dr, with_features = wfeat,
                                 feature_dim_size = fdim\<rparr>]\<rparr>)
   \<and> (result (init env n_in cu au dr sl wfeat fdim w) = Inr self \<longrightarrow>
        fst (MultiGraphConvolutionLayers env
               \<lparr>conv_pos1 = n_in, conv_pos2 = cu, conv_pos3 = LeakyReLU sl,
                edge_type_num = 2, dropout_rate = dr, with_features = wfeat,
                feature_dim_size = fdim\<rparr> w) = Inr (graph_conv self))"
proof (intro conjI impI)
  let ?cargs = "\<lparr>conv_pos1 = n_in, conv_pos2 = cu, conv_pos3 = LeakyReLU sl,
                 edge_type_num = 2, dropout_rate = dr, with_features = wfeat,
                 feature_dim_size = fdim\<rparr>"
  show "conv_inits (calls (init env n_in cu au dr sl wfeat fdim w)) = [?cargs]"
    by (simp add: init_run Let_def split: prod.splits sum.splits)
  show "hd (calls (init env n_in cu au dr sl wfeat fdim w)) = Conv_init ?cargs"
    by (simp add: init_run Let_def split: prod.splits sum.splits)
  show "init env n_in cu au dr sl wfeat fdim w
          = \<lparr>result = Inl e, world = snd (MultiGraphConvolutionLayers env ?cargs w),
             calls = [Conv_init ?cargs]\<rparr>"
    if "fst (MultiGraphConvolutionLayers env ?cargs w) = Inl e"
    using that by (auto simp add: init_run Let_def split: prod.splits sum.splits)
  show "fst (MultiGraphConvolutionLayers env ?cargs w) = Inr (graph_conv self)"
    if "result (init env n_in cu au dr sl wfeat fdim w) = Inr self"
    using that by (auto simp add: init_run Let_def split: prod.splits sum.splits if_splits)
qed

theorem graph_conv_constructed_as_configured_witness:
  "fst (MultiGraphConvolutionLayers toy
          \<lparr>conv_pos1 = 0, conv_pos2 = [64, 32], conv_pos3 = LeakyReLU (1 / 10),
           edge_type_num = 2, dropout_rate = 0, with_features = False,
           feature_dim_size = 0\<rparr> 0) = Inl (Other ''in_features'')
   \<and> init toy 0 [64, 32] 16 0 (1 / 10) False 0 0
       = \<lparr>result = Inl (Other ''in_features''), world = 0,
          calls = [Conv_init \<lparr>conv_pos1 = 0, conv_pos2 = [64, 32], conv_pos3 = LeakyReLU (1 / 10),
                              edge_type_num = 2, dropout_rate = 0, with_features = False,
                              feature_dim_size = 0\<rparr>]\<rparr>
   \<and> result (init toy 8 [64, 32] 16 0 (1 / 10) False 0 0) = Inr toy_regressor
   \<and> graph_conv toy_regressor
       = \<lparr>conv_pos1 = 8, conv_pos2 = [64, 32], conv_pos3 = LeakyReLU (1 / 10),
          edge_type_num = 2, dropout_rate = 0, with_features = False,
          feature_dim_size = 0\<rparr>
   \<and> fst (MultiGraphConvolutionLayers toy
          \<lparr>conv_pos1 = 8, conv_pos2 = [64, 32], conv_pos3 = LeakyReLU (1 / 10),
           edge_type_num = 2, dropout_rate = 0, with_features = False,
           feature_dim_size = 0\<rparr> 0) = Inr (graph_conv toy_regressor)"
proof -
  have raises: "fst (MultiGraphConvolutionLayers toy
          \<lparr>conv_pos1 = 0, conv_pos2 = [64, 32], conv_pos3 = LeakyReLU (1 / 10),
           edge_type_num = 2, dropout_rate = 0, with_features = False,
           feature_dim_size = 0\<rparr> 0) = Inl (Other ''in_features'')"
    by (simp add: toy_def)
  have built: "result (init toy 8 [64, 32] 16 0 (1 / 10) False 0 0) = Inr toy_regressor"
    by (simp add: toy_init_run)
  have left: "snd (MultiGraphConvolutionLayers toy
          \<lparr>conv_pos1 = 0, conv_pos2 = [64, 32], conv_pos3 = LeakyReLU (1 / 10),
           edge_type_num = 2, dropout_rate = 0, with_features = False,
           feature_dim_size = 0\<rparr> 0) = 0"
    by (simp add: toy_def)
  from graph_conv_constructed_as_configured
         [where env = toy and n_in = 0 and cu = "[64, 32]" and au = 16 and dr = 0
            and sl = "1 / 10" and wfeat = False and fdim = 0 and w = 0
            and e = "Other ''in_features''"]
       graph_conv_constructed_as_configured
         [where env = toy and n_in = 8 and cu = "[64, 32]" and au = 16 and dr = 0
            and sl = "1 / 10" and wfeat = False and fdim = 0 and w = 0
            and self = toy_regressor]
       raises built left
  show ?thesis by (simp add: toy_regressor_def)
qed

text \<open>
  Claim C7. \<^verbatim>\<open>forward\<close> raises \<open>e\<close> exactly when the convolution stack raises \<open>e\<close>, or
  the convolution stack returns and the aggregation layer, called on what it returned,
  raises \<open>e\<close>. There is no retry: the convolution stack is called once, the aggregation
  layer at most once. There is no recovery: when the convolution stack raises, the
  aggregation layer is not called and the state is the one the failed call left.
\<close>

theorem forward_raises_iff_collaborator_raises:
  "(result (forward env self x a h w) = Inl e \<longleftrightarrow>
      fst (graph_conv_call env (graph_conv self) x a h w) = Inl e
      \<or> (\<exists>hidden. fst (graph_conv_call env (graph_conv self) x a h w) = Inr hidden
            \<and> fst (aggregation_call env (aggregation_layer self) hidden
                     (snd (graph_conv_call env (graph_conv self) x a h w))) = Inl e))
   \<and> conv_forwards (calls (forward env self x a h w)) = [(x, a, h)]
   \<and> length (agg_forwards (calls (forward env self x a h w))) \<le> 1
   \<and> (fst (graph_conv_call env (graph_conv self) x a h w) = Inl e \<longrightarrow>
        agg_forwards (calls (forward env self x a h w)) = []
        \<and> world (forward env self x a h w)
            = snd (graph_conv_call env (graph_conv self) x a h w))"
  by (auto simp add: forward_run split: prod.splits sum.splits)

theorem forward_raises_iff_collaborator_raises_witness:
  "fst (graph_conv_call toy (graph_conv toy_regressor) [] [0] None 5) = Inl (Other ''empty'')
   \<and> result (forward toy toy_regressor [] [0] None 5) = Inl (Other ''empty'')
   \<and> agg_forwards (calls (forward toy toy_regressor [] [0] None 5)) = []
   \<and> world (forward toy toy_regressor [] [0] None 5) = 5"
proof -
  have raises: "fst (graph_conv_call toy (graph_conv toy_regressor) [] [0] None 5) = Inl (Other ''empty'')"
    by (simp add: toy_def)
  from forward_raises_iff_collaborator_raises
         [of toy toy_regressor "[]" "[0]" None 5 "Other ''empty''"] raises
  show ?thesis by (simp add: toy_def)
qed

text \<open>
  Claim C8. With an empty \<^verbatim>\<open>conv_units\<close> the constructor never returns a module: it
  raises what the convolution stack's constructor raises, and \<^verbatim>\<open>IndexError\<close> from
  \<^verbatim>\<open>conv_units[-1]\<close> when that constructor returns; the aggregation layer is never
  constructed. So a constructor that returns had a non-empty \<^verbatim>\<open>conv_units\<close>. With a
  non-empty list the indexing returns the last element, and an exception from the
  constructor is one a collaborator's constructor raised.
\<close>

theorem empty_conv_units_fails_construction:
  "result (init env n_in [] au dr sl wfeat fdim w) =
     (case fst (MultiGraphConvolutionLayers env
                  \<lparr>conv_pos1 = n_in, conv_pos2 = [], conv_pos3 = LeakyReLU sl,
                   edge_type_num = 2, dropout_rate = dr, with_features = wfeat,
                   feature_dim_size = fdim\<rparr> w) of
        Inl e \<Rightarrow> Inl e
      | Inr gc \<Rightarrow> Inl IndexError)
   \<and> agg_inits (calls (init env n_in [] au dr sl wfeat fdim w)) = []
   \<and> (result (init env n_in cu au dr sl wfeat fdim w) = Inr self \<longrightarrow> cu \<noteq> [])
   \<and> (cu \<noteq> [] \<longrightarrow>
        (getitem cu (- 1) :: 'x exn + int) = Inr (last cu)
        \<and> (result (init env n_in cu au dr sl wfeat fdim w) = Inl e \<longrightarrow>
             fst (MultiGraphConvolutionLayers env
                    \<lparr>conv_pos1 = n_in, conv_pos2 = cu, conv_pos3 = LeakyReLU sl,
                     edge_type_num = 2, dropout_rate = dr, with_features = wfeat,
                     feature_dim_size = fdim\<rparr> w) = Inl e
             \<or> (\<exists>w1. fst (GraphAggregationLayer env
                             \<lparr>agg_pos1 = last cu, agg_pos2 = au, leaky_relu_slope = sl\<rparr> w1)
                        = Inl e)))"
proof (intro conjI impI)
  show "result (init env n_in [] au dr sl wfeat fdim w) =
     (case fst (MultiGraphConvolutionLayers env
                  \<lparr>conv_pos1 = n_in, conv_pos2 = [], conv_pos3 = LeakyReLU sl,
                   edge_type_num = 2, dropout_rate = dr, with_features = wfeat,
                   feature_dim_size = fdim\<rparr> w) of
        Inl e \<Rightarrow> Inl e
      | Inr gc \<Rightarrow> Inl IndexError)"
    by (simp add: init_run Let_def split: prod.splits sum.splits)
  show "agg_inits (calls (init env n_in [] au dr sl wfeat fdim w)) = []"
    by (simp add: init_run Let_def split: prod.splits sum.splits)
  show "cu \<noteq> []" if "result (init env n_in cu au dr sl wfeat fdim w) = Inr self"
    using that by (auto simp add: init_run Let_def split: prod.splits sum.splits)
  show "(getitem cu (- 1) :: 'x exn + int) = Inr (last cu)" if "cu \<noteq> []"
    using that by (simp add: getitem_last)
  show "fst (MultiGraphConvolutionLayers env
                    \<lparr>conv_pos1 = n_in, conv_pos2 = cu, conv_pos3 = LeakyReLU sl,
                     edge_type_num = 2, dropout_rate = dr, with_features = wfeat,
                     feature_dim_size = fdim\<rparr> w) = Inl e
             \<or> (\<exists>w1. fst (GraphAggregationLayer env
                             \<lparr>agg_pos1 = last cu, agg_pos2 = au, leaky_relu_slope = sl\<rparr> w1)
                        = Inl e)"
    if "cu \<noteq> []" and "result (init env n_in cu au dr sl wfeat fdim w) = Inl e"
    using that
    by (auto simp add: init_run Let_def split: prod.splits sum.splits) (metis fst_conv)
qed

theorem empty_conv_units_fails_construction_witness:
  "result (init toy 8 [] 16 0 (1 / 10) False 0 0) = Inl IndexError
   \<and> agg_inits (calls (init toy 8 [] 16 0 (1 / 10) False 0 0)) = []
   \<and> result (init toy 8 [64, 32] 16 0 (1 / 10) False 0 0)
       = Inr toy_regressor
   \<and> [64, 32] \<noteq> ([] :: int list)
   \<and> (getitem [64, 32] (- 1) :: string exn + int) = Inr 32"
proof -
  have built: "result (init toy 8 [64, 32] 16 0 (1 / 10) False 0 0)
       = Inr toy_regressor"
    by (simp add: toy_init_run)
  have conv_ok: "fst (MultiGraphConvolutionLayers toy
                  \<lparr>conv_pos1 = 8, conv_pos2 = [], conv_pos3 = LeakyReLU (1 / 10),
                   edge_type_num = 2, dropout_rate = 0, with_features = False,
                   feature_dim_size = 0\<rparr> 0)
        = Inr \<lparr>conv_pos1 = 8, conv_pos2 = [], conv_pos3 = LeakyReLU (1 / 10),
                   edge_type_num = 2, dropout_rate = 0, with_features = False,
                   feature_dim_size = 0\<rparr>"
    by (simp add: toy_def)
  from empty_conv_units_fails_construction
         [where env = toy and n_in = 8 and au = 16 and dr = 0 and sl = "1 / 10"
            and wfeat = False and fdim = 0 and w = 0 and cu = "[64, 32]"
            and ?'x = string]
       built conv_ok
  show ?thesis by simp
qed

text \<open>
  Claim C9. Whatever the arguments of the constructor, the convolution stack is built
  once, by a call of \<^verbatim>\<open>MultiGraphConvolutionLayers\<close> whose edge-type count is 2: the
  constructor raises what that call raises, and the \<^verbatim>\<open>self.graph_conv\<close> of a constructed
  module is the object that call returned. So with a convolution class whose objects
  handle as many edge types as they were built with (\<open>edge_types\<close> reads that number
  off an object), every constructed module handles two.
\<close>

theorem edge_type_num_fixed_at_two:
  "map edge_type_num (conv_inits (calls (init env n_in cu au dr sl wfeat fdim w))) = [2]
   \<and> (fst (MultiGraphConvolutionLayers env
               \<lparr>conv_pos1 = n_in, conv_pos2 = cu, conv_pos3 = LeakyReLU sl,
                edge_type_num = 2, dropout_rate = dr, with_features = wfeat,
                feature_dim_size = fdim\<rparr> w) = Inl e \<longrightarrow>
        result (init env n_in cu au dr sl wfeat fdim w) = Inl e)
   \<and> (result (init env n_in cu au dr sl wfeat fdim w) = Inr self \<longrightarrow>
        fst (MultiGraphConvolutionLayers env
               \<lparr>conv_pos1 = n_in, conv_pos2 = cu, conv_pos3 = LeakyReLU sl,
                edge_type_num = 2, dropout_rate = dr, with_features = wfeat,
                feature_dim_size = fdim\<rparr> w) = Inr (graph_conv self))
   \<and> ((\<forall>args v gc v'. MultiGraphConvolutionLayers env args v = (Inr gc, v') \<longrightarrow>
                        edge_types gc = edge_type_num args)
        \<and> result (init env n_in cu au dr sl wfeat fdim w) = Inr self \<longrightarrow>
        edge_types (graph_conv self) = 2)"
proof (intro conjI impI)
  let ?cargs = "\<lparr>conv_pos1 = n_in, conv_pos2 = cu, conv_pos3 = LeakyReLU sl,
                 edge_type_num = 2, dropout_rate = dr, with_features = wfeat,
                 feature_dim_size = fdim\<rparr>"
  have built_by: "fst (MultiGraphConvolutionLayers env ?cargs w) = Inr (graph_conv m)"
    if "result (init env n_in cu au dr sl wfeat fdim w) = Inr m" for m
    using that by (auto simp add: init_run Let_def split: prod.splits sum.splits if_splits)
  show "map edge_type_num (conv_inits (calls (init env n_in cu au dr sl wfeat fdim w))) = [2]"
    by (simp add: init_run Let_def split: prod.splits sum.splits)
  show "result (init env n_in cu au dr sl wfeat fdim w) = Inl e"
    if "fst (MultiGraphConvolutionLayers env ?cargs w) = Inl e"
    using that by (auto simp add: init_run Let_def split: prod.splits sum.splits)
  show "fst (MultiGraphConvolutionLayers env ?cargs w) = Inr (graph_conv self)"
    if "result (init env n_in cu au dr sl wfeat fdim w) = Inr self"
    using that by (rule built_by)
  show "edge_types (graph_conv self) = 2"
    if both: "(\<forall>args v gc v'. MultiGraphConvolutionLayers env args v = (Inr gc, v') \<longrightarrow>
                 edge_types gc = edge_type_num args)
              \<and> result (init env n_in cu au dr sl wfeat fdim w) = Inr self"
  proof -
    from both have "fst (MultiGraphConvolutionLayers env ?cargs w) = Inr (graph_conv self)"
      by (simp add: built_by)
    then have "MultiGraphConvolutionLayers env ?cargs w
                 = (Inr (graph_conv self), snd (MultiGraphConvolutionLayers env ?cargs w))"
      by (simp add: prod_eq_iff)
    with both have "edge_types (graph_conv self) = edge_type_num ?cargs"
      by blast
    then show ?thesis by simp
  qed
qed

theorem edge_type_num_fixed_at_two_witness:
  "fst (MultiGraphConvolutionLayers toy
          \<lparr>conv_pos1 = - 3, conv_pos2 = [5], conv_pos3 = LeakyReLU (1 / 5),
           edge_type_num = 2, dropout_rate = 1 / 2, with_features = True,
           feature_dim_size = 3\<rparr> 7) = Inl (Other ''in_features'')
   \<and> result (init toy (- 3) [5] 1 (1 / 2) (1 / 5) True 3 7) = Inl (Other ''in_features'')
   \<and> result (init toy 8 [64, 32] 16 0 (1 / 10) False 0 0) = Inr toy_regressor
   \<and> edge_type_num (graph_conv toy_regressor) = 2"
proof -
  have raises: "fst (MultiGraphConvolutionLayers toy
          \<lparr>conv_pos1 = - 3, conv_pos2 = [5], conv_pos3 = LeakyReLU (1 / 5),
           edge_type_num = 2, dropout_rate = 1 / 2, with_features = True,
           feature_dim_size = 3\<rparr> 7) = Inl (Other ''in_features'')"
    by (simp add: toy_def)
  have keeps: "\<forall>args v gc v'. MultiGraphConvolutionLayers toy args v = (Inr gc, v') \<longrightarrow>
                 edge_type_num gc = edge_type_num args"
    by (auto simp add: toy_def split: if_splits)
  have built: "result (init toy 8 [64, 32] 16 0 (1 / 10) False 0 0) = Inr toy_regressor"
    by (simp add: toy_init_run)
  from edge_type_num_fixed_at_two
         [where env = toy and n_in = "- 3" and cu = "[5]" and au = 1 and dr = "1 / 2"
            and sl = "1 / 5" and wfeat = True and fdim = 3 and w = 7
            and e = "Other ''in_features''"]
       edge_type_num_fixed_at_two
         [where env = toy and n_in = 8 and cu = "[64, 32]" and au = 16 and dr = 0
            and sl = "1 / 10" and wfeat = False and fdim = 0 and w = 0
            and self = toy_regressor and edge_types = edge_type_num]
       raises keeps built
  show ?thesis by simp
qed

text \<open>
  Claim C10. The slope of the LeakyReLU given to the convolution stack is the
  constructor's \<^verbatim>\<open>leaky_relu_slope\<close>, and so is the slope given to the aggregation layer
  whenever that layer is constructed: the two are equal.
\<close>

theorem leaky_relu_slope_shared:
  "map (\<lambda>args. negative_slope (conv_pos3 args))
       (conv_inits (calls (init env n_in cu au dr sl wfeat fdim w))) = [sl]
   \<and> set (map leaky_relu_slope (agg_inits (calls (init env n_in cu au dr sl wfeat fdim w))))
       \<subseteq> {sl}
   \<and> (result (init env n_in cu au dr sl wfeat fdim w) = Inr self \<longrightarrow>
        map leaky_relu_slope (agg_inits (calls (init env n_in cu au dr sl wfeat fdim w)))
          = [sl])"
  by (auto simp add: init_run Let_def split: prod.splits sum.splits if_splits)

theorem leaky_relu_slope_shared_witness:
  "result (init toy 8 [64, 32] 16 0 (1 / 10) False 0 0)
       = Inr toy_regressor
   \<and> map (\<lambda>args. negative_slope (conv_pos3 args))
         (conv_inits (calls (init toy 8 [64, 32] 16 0 (1 / 10) False 0 0))) = [1 / 10]
   \<and> map leaky_relu_slope (agg_inits (calls (init toy 8 [64, 32] 16 0 (1 / 10) False 0 0)))
       = [1 / 10]"
proof -
  have built: "result (init toy 8 [64, 32] 16 0 (1 / 10) False 0 0)
       = Inr toy_regressor"
    by (simp add: toy_init_run)
  from leaky_relu_slope_shared [of toy 8 "[64, 32]" 16 0 "1 / 10" False 0 0] built
  show ?thesis by simp
qed


subsection \<open>Output dimensionality, with the aggregation layer as the spec describes it\<close>

lemma init_with_spec_aggregation:
  assumes "result (init (with_spec_aggregation conv_init conv_call) n_in cu au dr sl wfeat fdim w)
             = Inr self"
  shows "aggregation_layer self = \<lparr>agg_pos1 = last cu, agg_pos2 = au, leaky_relu_slope = sl\<rparr>"
  using assms
  by (auto simp add: init_run with_spec_aggregation_def GraphAggregationLayer_spec_def Let_def
      split: prod.splits sum.splits if_splits)

lemma forward_with_spec_aggregation:
  assumes "result (forward (with_spec_aggregation conv_init conv_call) self x a h w) = Inr y"
  shows "y = agg_pos2 (aggregation_layer self)"
  using assms
  by (auto simp add: forward_run with_spec_aggregation_def aggregation_call_spec_def
      split: prod.splits sum.splits)

text \<open>
  Claim C6. Take two regressors built with the same \<^verbatim>\<open>aggregation_units\<close> and any two
  \<^verbatim>\<open>conv_units\<close> lists (other arguments, inputs and states may differ too). Whenever
  \<^verbatim>\<open>forward\<close> returns on both, the two outputs have the same dimensionality, namely
  \<^verbatim>\<open>aggregation_units\<close>; of \<^verbatim>\<open>conv_units\<close> only the last entry reaches the aggregation
  layer, as its declared input size.
\<close>

theorem output_dimensionality_only_from_aggregation_units:
  assumes "result (init (with_spec_aggregation conv_init conv_call) n1 cu1 au dr1 sl1 wf1 fd1 w1)
             = Inr self1"
    and "result (init (with_spec_aggregation conv_init conv_call) n2 cu2 au dr2 sl2 wf2 fd2 w2)
             = Inr self2"
    and "result (forward (with_spec_aggregation conv_init conv_call) self1 x1 a1 h1 v1) = Inr y1"
    and "result (forward (with_spec_aggregation conv_init conv_call) self2 x2 a2 h2 v2) = Inr y2"
  shows "y1 = y2 \<and> y1 = au
         \<and> agg_pos1 (aggregation_layer self1) = last cu1
         \<and> agg_pos1 (aggregation_layer self2) = last cu2"
  using init_with_spec_aggregation [OF assms(1)] init_with_spec_aggregation [OF assms(2)]
    forward_with_spec_aggregation [OF assms(3)] forward_with_spec_aggregation [OF assms(4)]
  by simp

theorem output_dimensionality_only_from_aggregation_units_witness:
  "result (init toy_dims 8 [64, 32] 16 0 (1 / 10) False 0 0)
     = Inr \<lparr>graph_conv =
              \<lparr>conv_pos1 = 8, conv_pos2 = [64, 32], conv_pos3 = LeakyReLU (1 / 10),
               edge_type_num = 2, dropout_rate = 0, with_features = False,
               feature_dim_size = 0\<rparr>,
            aggregation_layer = \<lparr>agg_pos1 = 32, agg_pos2 = 16, leaky_relu_slope = 1 / 10\<rparr>\<rparr>
   \<and> result (init toy_dims 4 [128, 64, 32] 16 (1 / 2) (1 / 5) True 3 7)
     = Inr \<lparr>graph_conv =
              \<lparr>conv_pos1 = 4, conv_pos2 = [128, 64, 32], conv_pos3 = LeakyReLU (1 / 5),
               edge_type_num = 2, dropout_rate = 1 / 2, with_features = True,
               feature_dim_size = 3\<rparr>,
            aggregation_layer = \<lparr>agg_pos1 = 32, agg_pos2 = 16, leaky_relu_slope = 1 / 5\<rparr>\<rparr>
   \<and> result (forward toy_dims
        \<lparr>graph_conv =
              \<lparr>conv_pos1 = 8, conv_pos2 = [64, 32], conv_pos3 = LeakyReLU (1 / 10),
               edge_type_num = 2, dropout_rate = 0, with_features = False,
               feature_dim_size = 0\<rparr>,
            aggregation_layer = \<lparr>agg_pos1 = 32, agg_pos2 = 16, leaky_relu_slope = 1 / 10\<rparr>\<rparr>
        8 2 None 2) = Inr 16
   \<and> result (forward toy_dims
        \<lparr>graph_conv =
              \<lparr>conv_pos1 = 4, conv_pos2 = [128, 64, 32], conv_pos3 = LeakyReLU (1 / 5),
               edge_type_num = 2, dropout_rate = 1 / 2, with_features = True,
               feature_dim_size = 3\<rparr>,
            aggregation_layer = \<lparr>agg_pos1 = 32, agg_pos2 = 16, leaky_relu_slope = 1 / 5\<rparr>\<rparr>
        4 2 (Some 3) 9) = Inr 16"
proof -
  let ?ci = "\<lambda>(args :: real conv_args) (w :: nat). (Inr args :: string exn + real conv_args, Suc w)"
  let ?cc = "\<lambda>(gc :: real conv_args) (x :: int) (a :: int) (h :: int option) (w :: nat).
               (Inr (last (conv_pos2 gc)) :: string exn + int, Suc w)"
  let ?m1 = "\<lparr>graph_conv =
              \<lparr>conv_pos1 = 8, conv_pos2 = [64, 32], conv_pos3 = LeakyReLU (1 / 10 :: real),
               edge_type_num = 2, dropout_rate = 0, with_features = False,
               feature_dim_size = 0\<rparr>,
            aggregation_layer = \<lparr>agg_pos1 = 32, agg_pos2 = 16, leaky_relu_slope = 1 / 10 :: real\<rparr>\<rparr>"
  let ?m2 = "\<lparr>graph_conv =
              \<lparr>conv_pos1 = 4, conv_pos2 = [128, 64, 32], conv_pos3 = LeakyReLU (1 / 5 :: real),
               edge_type_num = 2, dropout_rate = 1 / 2, with_features = True,
               feature_dim_size = 3\<rparr>,
            aggregation_layer = \<lparr>agg_pos1 = 32, agg_pos2 = 16, leaky_relu_slope = 1 / 5 :: real\<rparr>\<rparr>"
  have b1: "result (init (with_spec_aggregation ?ci ?cc) 8 [64, 32] 16 0 (1 / 10) False 0 0)
              = Inr ?m1"
    by (simp add: init_run with_spec_aggregation_def GraphAggregationLayer_spec_def Let_def)
  have b2: "result (init (with_spec_aggregation ?ci ?cc) 4 [128, 64, 32] 16 (1 / 2) (1 / 5) True 3 7)
              = Inr ?m2"
    by (simp add: init_run with_spec_aggregation_def GraphAggregationLayer_spec_def Let_def)
  have f1: "result (forward (with_spec_aggregation ?ci ?cc) ?m1 8 2 None 2) = Inr 16"
    by (simp add: forward_run with_spec_aggregation_def aggregation_call_spec_def)
  have f2: "result (forward (with_spec_aggregation ?ci ?cc) ?m2 4 2 (Some 3) 9) = Inr 16"
    by (simp add: forward_run with_spec_aggregation_def aggregation_call_spec_def)
  from output_dimensionality_only_from_aggregation_units [OF b1 b2 f1 f2] b1 b2 f1 f2
  show ?thesis by (simp add: toy_dims_def)
qed

subsection \<open>The auxiliary tensor\<close>

text \<open>
  \<^verbatim>\<open>forward\<close> hands \<^verbatim>\<open>h_tensor\<close> to the convolution stack and uses it nowhere else, whatever
  the module was built with: if the convolution stack answers two auxiliary tensors
  alike, so does \<^verbatim>\<open>forward\<close>.
\<close>

lemma forward_uses_h_tensor_only_in_graph_conv:
  assumes "graph_conv_call env (graph_conv self) x a h w
             = graph_conv_call env (graph_conv self) x a h' w"
  shows "result (forward env self x a h w) = result (forward env self x a h' w)
         \<and> world (forward env self x a h w) = world (forward env self x a h' w)"
  using assms by (simp add: forward_run split: prod.splits sum.splits)

end
